theory Spec2Isabelle
  imports Complex_Main
begin

section \<open>Values and data model\<close>

text \<open>
  The engine passes untyped JavaScript values around (\<open>data: any\<close>, database rows,
  parsed JSON). They are modelled by one datatype; an object is an association list in
  the order its properties were written. Numbers are real numbers; the two places where
  the code can produce NaN from ordinary inputs (0/0 and \<open>parseInt\<close>) return an option.
  A string is a list of 8-bit characters, each standing for one code unit.
\<close>

datatype jsval =
    JUndefined
  | JNull
  | JBool bool
  | JNum real
  | JStr string
  | JArr "jsval list"
  | JObj "(string \<times> jsval) list"

text \<open>A thrown value: an \<open>Error\<close> with its message, or anything else.\<close>

datatype exn = Error string | NonError

datatype LayerStatus = Active | Inactive | Processing

record ContextLayer =
  id' :: nat
  name :: string
  status :: LayerStatus
  data :: jsval
  tokenCount :: nat
  relevanceScore :: real

record ContextWindow =
  layers :: "ContextLayer list"
  activeLayers :: "nat list"
  relevanceScore :: "real option"
  tokenCount :: nat
  lastUpdate :: string

record User =
  user_id :: string
  user_sessionId :: string

text \<open>
  What the engine has around it: the rows of the \<open>memory\<close> table of the schema
  (identifier, tier and content; written by the file processor or by hand), the answers
  of the D1 database to the engine's five queries (a thrown error, or the value the
  driver returns), the platform's \<open>JSON.parse\<close> and \<open>JSON.stringify\<close>, and the clock.
  The clock is read four times during one assembly; \<open>date_now k\<close> is the ISO string
  of the k-th reading. Every query is taken to settle: it returns or it throws.
\<close>

record MemoryRow =
  memory_id :: string
  memory_type :: string
  memory_content :: string

record Env =
  memory_rows :: "MemoryRow list"
  user_preferences_first :: "string \<Rightarrow> exn + jsval"
  session_stats_first :: "string \<Rightarrow> exn + jsval"
  recent_messages_all :: "string \<Rightarrow> exn + jsval"
  files_all :: "string list \<Rightarrow> string \<Rightarrow> exn + jsval"
  document_count_first :: "string \<Rightarrow> exn + jsval"
  JSON_parse :: "jsval \<Rightarrow> exn + jsval"
  JSON_stringify :: "jsval \<Rightarrow> string"
  date_now :: "nat \<Rightarrow> string"

section \<open>JavaScript primitives used by the engine\<close>

fun truthy :: "jsval \<Rightarrow> bool" where
  "truthy JUndefined = False"
| "truthy JNull = False"
| "truthy (JBool b) = b"
| "truthy (JNum n) = (n \<noteq> 0)"
| "truthy (JStr s) = (s \<noteq> [])"
| "truthy (JArr xs) = True"
| "truthy (JObj kvs) = True"

definition js_or :: "jsval \<Rightarrow> jsval \<Rightarrow> jsval" where
  "js_or a b = (if truthy a then a else b)"

text \<open>
  Reading a data property \<open>v?.k\<close>. None of the keys the engine reads is a built-in
  property of strings, arrays or numbers, so only an object can answer.
\<close>

fun opt_prop :: "jsval \<Rightarrow> string \<Rightarrow> jsval" where
  "opt_prop (JObj kvs) k = (case map_of kvs k of Some v \<Rightarrow> v | None \<Rightarrow> JUndefined)"
| "opt_prop v k = JUndefined"

text \<open>\<open>v.k\<close> without the question mark throws a TypeError on null and undefined.\<close>

fun dot_prop :: "jsval \<Rightarrow> string \<Rightarrow> exn + jsval" where
  "dot_prop JUndefined k = Inl (Error ''Cannot read properties of undefined'')"
| "dot_prop JNull k = Inl (Error ''Cannot read properties of null'')"
| "dot_prop v k = Inr (opt_prop v k)"

text \<open>\<open>s.startsWith(p)\<close> and \<open>s.includes(sub)\<close> on strings.\<close>

fun startsWith :: "string \<Rightarrow> string \<Rightarrow> bool" where
  "startsWith s [] = True"
| "startsWith [] (p # ps) = False"
| "startsWith (c # cs) (p # ps) = (c = p \<and> startsWith cs ps)"

fun str_includes :: "string \<Rightarrow> string \<Rightarrow> bool" where
  "str_includes [] sub = (sub = [])"
| "str_includes (c # cs) sub = (startsWith (c # cs) sub \<or> str_includes cs sub)"

text \<open>\<open>s.split(' ')\<close>: the pieces between single spaces; always at least one piece.\<close>

fun split_space :: "string \<Rightarrow> string list" where
  "split_space [] = [[]]"
| "split_space (c # cs) =
     (if c = CHR '' '' then [] # split_space cs
      else (case split_space cs of
              [] \<Rightarrow> [[c]]
            | w # ws \<Rightarrow> (c # w) # ws))"

text \<open>White space in the sense of \<open>trim\<close> and of the regular expression class \<open>\s\<close>.\<close>

definition is_space :: "char \<Rightarrow> bool" where
  "is_space c = ((of_char c :: nat) \<in> {9, 10, 11, 12, 13, 32, 160})"

definition trim :: "string \<Rightarrow> string" where
  "trim s = rev (dropWhile is_space (rev (dropWhile is_space s)))"

definition lower_char :: "char \<Rightarrow> char" where
  "lower_char c =
     (let n = (of_char c :: nat)
      in if (65 \<le> n \<and> n \<le> 90) \<or> (192 \<le> n \<and> n \<le> 222 \<and> n \<noteq> 215)
         then char_of (n + 32) else c)"

definition toLowerCase :: "string \<Rightarrow> string" where
  "toLowerCase s = map lower_char s"

section \<open>The context engine\<close>

subsection \<open>Helpers\<close>

text \<open>\<open>estimateTokens\<close>: \<open>Math.ceil(text.length / 4)\<close>.\<close>

definition estimateTokens :: "string \<Rightarrow> nat" where
  "estimateTokens text = (length text + 3) div 4"

text \<open>
  \<open>calculateRelevanceScore\<close>: the reduce is a left fold from 0. Dividing by
  \<open>layers.length\<close> is 0/0 = NaN for the empty list, and \<open>Math.min(NaN, 1.0)\<close> is NaN;
  that case is the value \<open>None\<close>. The count of active layers is computed and not used,
  as in the source.
\<close>

definition activeWeight :: "ContextLayer \<Rightarrow> real" where
  "activeWeight layer = (if status layer = Active then 1 else 0.1)"

definition calculateRelevanceScore :: "ContextLayer list \<Rightarrow> string \<Rightarrow> real option" where
  "calculateRelevanceScore ls userQuery =
     (let activeLayerCount = length (filter (\<lambda>l. status l = Active) ls);
          weightedScore =
            foldl (\<lambda>sum layer. sum + ContextLayer.relevanceScore layer * activeWeight layer) 0 ls
      in if length ls = 0 then None
         else Some (min (weightedScore / real (length ls)) 1.0))"

definition detectPreferredFormat :: "string \<Rightarrow> string" where
  "detectPreferredFormat userQuery =
     (if str_includes userQuery ''code'' \<or> str_includes userQuery ''example'' then ''code''
      else if str_includes userQuery ''list'' \<or> str_includes userQuery ''bullet'' then ''structured''
      else if str_includes userQuery ''explain'' \<or> str_includes userQuery ''how'' then ''markdown''
      else ''text'')"

definition detectIntent :: "string \<Rightarrow> string" where
  "detectIntent query =
     (if str_includes query ''context'' \<or> str_includes query ''layer'' then ''context-engineering''
      else if str_includes query ''file'' \<or> str_includes query ''upload'' then ''file-processing''
      else if str_includes query ''explain'' \<or> str_includes query ''how'' then ''explanation''
      else if str_includes query ''help'' then ''assistance''
      else ''general'')"

definition extractEntities :: "string \<Rightarrow> string list" where
  "extractEntities query =
     (if str_includes query ''context'' then [''context''] else [])
     @ (if str_includes query ''memory'' then [''memory''] else [])
     @ (if str_includes query ''file'' then [''file''] else [])"

definition assessComplexity :: "string \<Rightarrow> string" where
  "assessComplexity query =
     (let wordCount = length (split_space query)
      in if wordCount < 5 then ''simple''
         else if wordCount < 20 then ''medium''
         else ''complex'')"

definition analyzeQuery :: "string \<Rightarrow> jsval" where
  "analyzeQuery userQuery = JObj [
     (''processed'', JStr (trim (toLowerCase userQuery))),
     (''intent'', JStr (detectIntent userQuery)),
     (''entities'', JArr (map JStr (extractEntities userQuery))),
     (''complexity'', JStr (assessComplexity userQuery)),
     (''requiresFiles'', JBool (str_includes userQuery ''file'' \<or> str_includes userQuery ''upload'')),
     (''expectedResponseType'', JStr (detectPreferredFormat userQuery))]"

subsection \<open>Database helpers\<close>

text \<open>
  Each helper wraps its query in \<open>try\<close>/\<open>catch\<close>: whatever is thrown inside
  (by the query, by \<open>JSON.parse\<close>, by reading a property of null) yields the default.
\<close>

definition getUserPreferences :: "Env \<Rightarrow> User \<Rightarrow> jsval" where
  "getUserPreferences env user =
     (case user_preferences_first env (user_id user) of
        Inl e \<Rightarrow> JObj []
      | Inr result \<Rightarrow>
          if truthy (opt_prop result ''preferences'')
          then (case JSON_parse env (opt_prop result ''preferences'') of
                  Inl e \<Rightarrow> JObj []
                | Inr v \<Rightarrow> v)
          else JObj [])"

definition getSessionStats :: "Env \<Rightarrow> User \<Rightarrow> jsval" where
  "getSessionStats env user =
     (case session_stats_first env (user_sessionId user) of
        Inl e \<Rightarrow> JObj [(''message_count'', JNum 0), (''last_activity'', JNull)]
      | Inr result \<Rightarrow>
          js_or result (JObj [(''message_count'', JNum 0), (''last_activity'', JNull)]))"

definition getRecentInteractions :: "Env \<Rightarrow> User \<Rightarrow> jsval" where
  "getRecentInteractions env user =
     (case recent_messages_all env (user_sessionId user) of
        Inl e \<Rightarrow> JArr []
      | Inr results \<Rightarrow>
          (case dot_prop results ''results'' of
             Inl e \<Rightarrow> JArr []
           | Inr r \<Rightarrow> js_or r (JArr [])))"

definition retrieveRelevantDocuments :: "string \<Rightarrow> jsval list" where
  "retrieveRelevantDocuments query = []"

definition getFileContext :: "Env \<Rightarrow> User \<Rightarrow> string list \<Rightarrow> jsval" where
  "getFileContext env user fileIds =
     (if length fileIds = 0 then JArr []
      else (case files_all env fileIds (user_id user) of
              Inl e \<Rightarrow> JArr []
            | Inr results \<Rightarrow>
                (case dot_prop results ''results'' of
                   Inl e \<Rightarrow> JArr []
                 | Inr r \<Rightarrow> js_or r (JArr []))))"

definition getDomainExpertise :: "string \<Rightarrow> jsval" where
  "getDomainExpertise query =
     JObj [(''domain'', JStr ''context-engineering''), (''confidence'', JNum 0.8)]"

definition getTotalDocumentCount :: "Env \<Rightarrow> User \<Rightarrow> jsval" where
  "getTotalDocumentCount env user =
     (case document_count_first env (user_id user) of
        Inl e \<Rightarrow> JNum 0
      | Inr result \<Rightarrow> js_or (opt_prop result ''count'') (JNum 0))"

text \<open>The helpers below are the source's one-line placeholders.\<close>

definition getCurrentTasks :: "jsval list" where
  "getCurrentTasks = []"

definition getWorkflowState :: "jsval" where
  "getWorkflowState = JObj [(''state'', JStr ''idle'')]"

definition calculateTaskProgress :: "jsval list \<Rightarrow> real" where
  "calculateTaskProgress tasks = 0"

definition getActiveGoals :: "jsval list" where
  "getActiveGoals = []"

definition getShortTermMemory :: "jsval list" where
  "getShortTermMemory = []"

definition getMediumTermMemory :: "jsval list" where
  "getMediumTermMemory = []"

definition searchLongTermMemory :: "Env \<Rightarrow> User \<Rightarrow> string \<Rightarrow> nat \<Rightarrow> jsval list" where
  "searchLongTermMemory env user query limit = []"

definition getLastToolUsage :: "jsval" where
  "getLastToolUsage = JNull"

definition getRelevantExamples :: "string \<Rightarrow> jsval list" where
  "getRelevantExamples query = []"

definition getFewShotExamples :: "string \<Rightarrow> jsval list" where
  "getFewShotExamples query = []"

definition getConversationContext :: "jsval" where
  "getConversationContext = JObj []"

definition getImmediateContext :: "jsval" where
  "getImmediateContext = JObj []"

definition getLastInteraction :: "jsval" where
  "getLastInteraction = JNull"

definition getContextSwitches :: "real" where
  "getContextSwitches = 0"

subsection \<open>The eleven layer builders\<close>

definition mk_layer :: "Env \<Rightarrow> nat \<Rightarrow> string \<Rightarrow> LayerStatus \<Rightarrow> jsval \<Rightarrow> real \<Rightarrow> ContextLayer" where
  \<comment> \<open>the object every builder returns; the token count is taken of the serialised payload\<close>
  "mk_layer env i n st d r =
     \<lparr>id' = i, name = n, status = st, data = d,
      tokenCount = estimateTokens (JSON_stringify env d),
      relevanceScore = r\<rparr>"

definition buildInstructionsLayer :: "Env \<Rightarrow> ContextLayer" where
  "buildInstructionsLayer env =
     (let instructions = JObj [
        (''constitution'', JStr ''You are ContextLinc, a next-generation context-aware AI assistant built on the 11-layer Context Window Architecture. You specialize in context engineering and multi-modal processing.''),
        (''persona'', JStr ''Expert AI assistant with deep understanding of context engineering, multi-modal processing, and intelligent conversation management.''),
        (''goals'', JArr [
           JStr ''Provide contextually relevant and accurate responses'',
           JStr ''Demonstrate sophisticated context awareness'',
           JStr ''Help users understand context engineering principles'',
           JStr ''Process and analyze multi-modal content effectively'']),
        (''ethicalBoundaries'', JArr [
           JStr ''Maintain user privacy and data security'',
           JStr ''Provide truthful and accurate information'',
           JStr ''Respect intellectual property rights'',
           JStr ''Avoid harmful or inappropriate content'']),
        (''capabilities'', JArr [
           JStr ''Multi-modal file processing (documents, images, videos, audio)'',
           JStr ''11-layer context window architecture'',
           JStr ''Three-tier memory system'',
           JStr ''Dynamic context optimization'',
           JStr ''Real-time conversation analysis''])]
      in mk_layer env 1 ''Instructions'' Active instructions 1.0)"

definition buildUserInfoLayer :: "Env \<Rightarrow> User \<Rightarrow> ContextLayer" where
  "buildUserInfoLayer env user =
     (let userPrefs = getUserPreferences env user;
          sessionStats = getSessionStats env user;
          userInfo = JObj [
            (''userId'', JStr (user_id user)),
            (''sessionId'', JStr (user_sessionId user)),
            (''preferences'', userPrefs),
            (''sessionStats'', sessionStats),
            (''interactionHistory'', getRecentInteractions env user),
            (''personalization'', JObj [
               (''responseStyle'', js_or (opt_prop userPrefs ''responseStyle'') (JStr ''balanced'')),
               (''detailLevel'', js_or (opt_prop userPrefs ''detailLevel'') (JStr ''medium'')),
               (''preferredFormats'', js_or (opt_prop userPrefs ''preferredFormats'') (JArr [JStr ''text'']))])]
      in mk_layer env 2 ''User Info'' Active userInfo 0.8)"

definition buildKnowledgeLayer :: "Env \<Rightarrow> User \<Rightarrow> string \<Rightarrow> string list \<Rightarrow> ContextLayer" where
  "buildKnowledgeLayer env user userQuery files =
     (let retrievedDocs = retrieveRelevantDocuments userQuery;
          fileContext = getFileContext env user files;
          domainExpertise = getDomainExpertise userQuery;
          knowledge = JObj [
            (''retrievedDocuments'', JArr retrievedDocs),
            (''fileContext'', fileContext),
            (''domainExpertise'', domainExpertise),
            (''embeddingMatches'', JNum (real (length retrievedDocs))),
            (''totalDocuments'', getTotalDocumentCount env user),
            (''lastIndexUpdate'', JStr (date_now env 0))];
          isActive = (length retrievedDocs > 0 \<or> length files > 0)
      in mk_layer env 3 ''Knowledge'' (if isActive then Active else Inactive) knowledge
           (if isActive then 0.9 else 0.1))"

definition buildTaskGoalState :: "Env \<Rightarrow> ContextLayer" where
  "buildTaskGoalState env =
     (let currentTasks = getCurrentTasks;
          workflowState = getWorkflowState;
          taskState = JObj [
            (''currentTask'', (case currentTasks of [] \<Rightarrow> JNull | t # ts \<Rightarrow> t)),
            (''activeTasks'', JArr currentTasks),
            (''workflowState'', workflowState),
            (''progress'', JNum (calculateTaskProgress currentTasks)),
            (''goals'', JArr getActiveGoals)];
          isActive = (length currentTasks > 0)
      in mk_layer env 4 ''Task/Goal State'' (if isActive then Active else Inactive) taskState
           (if isActive then 0.8 else 0.2))"

definition buildMemoryLayer :: "Env \<Rightarrow> User \<Rightarrow> string \<Rightarrow> ContextLayer" where
  "buildMemoryLayer env user userQuery =
     (let shortTermMemory = getShortTermMemory;
          mediumTermMemory = getMediumTermMemory;
          longTermMemory = searchLongTermMemory env user userQuery 10;
          memory = JObj [
            (''shortTerm'', JObj [
               (''items'', JArr shortTermMemory),
               (''capacity'', JNum 10),
               (''retention'', JStr ''1 hour'')]),
            (''mediumTerm'', JObj [
               (''items'', JArr mediumTermMemory),
               (''capacity'', JNum 100),
               (''retention'', JStr ''1 session'')]),
            (''longTerm'', JObj [
               (''items'', JArr longTermMemory),
               (''capacity'', JStr ''unlimited''),
               (''retention'', JStr ''persistent'')]),
            (''totalItems'', JNum (real (length shortTermMemory + length mediumTermMemory
                                         + length longTermMemory)))]
      in mk_layer env 5 ''Memory'' Active memory 0.7)"

definition buildToolsLayer :: "Env \<Rightarrow> ContextLayer" where
  "buildToolsLayer env =
     (let availableTools = [
            JObj [(''name'', JStr ''File Processor''),
                  (''description'', JStr ''Multi-modal file processing and analysis''),
                  (''status'', JStr ''available''),
                  (''capabilities'', JArr [JStr ''document parsing'', JStr ''image analysis'',
                                            JStr ''video processing'', JStr ''audio transcription''])],
            JObj [(''name'', JStr ''Context Optimizer''),
                  (''description'', JStr ''Dynamic context compression and optimization''),
                  (''status'', JStr ''available''),
                  (''capabilities'', JArr [JStr ''context pruning'', JStr ''relevance scoring'',
                                            JStr ''token optimization''])],
            JObj [(''name'', JStr ''Memory Manager''),
                  (''description'', JStr ''Three-tier memory system management''),
                  (''status'', JStr ''available''),
                  (''capabilities'', JArr [JStr ''memory storage'', JStr ''semantic search'',
                                            JStr ''memory consolidation''])],
            JObj [(''name'', JStr ''Embedding Generator''),
                  (''description'', JStr ''Generate and manage embeddings for content''),
                  (''status'', JStr ''available''),
                  (''capabilities'', JArr [JStr ''text embeddings'', JStr ''image embeddings'',
                                            JStr ''multimodal embeddings''])]];
          tools = JObj [
            (''available'', JArr availableTools),
            (''active'', JArr []),
            (''totalTools'', JNum (real (length availableTools))),
            (''lastUsed'', getLastToolUsage)]
      in mk_layer env 6 ''Tools'' Inactive tools 0.3)"

definition buildExamplesLayer :: "Env \<Rightarrow> string \<Rightarrow> ContextLayer" where
  "buildExamplesLayer env userQuery =
     (let relevantExamples = getRelevantExamples userQuery;
          fewShotExamples = getFewShotExamples userQuery;
          total = length fewShotExamples + length relevantExamples;
          examples = JObj [
            (''fewShot'', JArr fewShotExamples),
            (''relevant'', JArr relevantExamples),
            (''total'', JNum (real total)),
            (''categories'', JArr [JStr ''context-engineering'', JStr ''multi-modal'',
                                    JStr ''conversation''])];
          isActive = (total > 0)
      in mk_layer env 7 ''Examples'' (if isActive then Active else Inactive) examples
           (if isActive then 0.6 else 0.1))"

definition buildContextLayer :: "Env \<Rightarrow> ContextLayer" where
  "buildContextLayer env =
     (let conversationContext = getConversationContext;
          immediateContext = getImmediateContext;
          context = JObj [
            (''conversation'', conversationContext),
            (''immediate'', immediateContext),
            (''sessionStart'', JStr (date_now env 1)),
            (''lastInteraction'', getLastInteraction),
            (''contextSwitches'', JNum getContextSwitches)]
      in mk_layer env 8 ''Context'' Active context 0.9)"

definition buildConstraintsLayer :: "Env \<Rightarrow> ContextLayer" where
  "buildConstraintsLayer env =
     (let constraints = JObj [
            (''operational'', JObj [
               (''maxTokens'', JNum 4096),
               (''responseTimeLimit'', JStr ''30s''),
               (''concurrentRequests'', JNum 10),
               (''fileSizeLimit'', JStr ''50MB'')]),
            (''safety'', JObj [
               (''contentFiltering'', JBool True),
               (''privacyProtection'', JBool True),
               (''harmfulContentDetection'', JBool True),
               (''copyrightRespect'', JBool True)]),
            (''quality'', JObj [
               (''minConfidenceThreshold'', JNum 0.7),
               (''factualAccuracy'', JBool True),
               (''citationRequired'', JBool True),
               (''biasDetection'', JBool True)])]
      in mk_layer env 9 ''Constraints'' Active constraints 0.5)"

definition buildOutputFormatLayer :: "Env \<Rightarrow> string \<Rightarrow> ContextLayer" where
  "buildOutputFormatLayer env userQuery =
     (let detectedFormat = detectPreferredFormat userQuery;
          outputFormat = JObj [
            (''preferredFormat'', JStr detectedFormat),
            (''supportedFormats'', JArr [JStr ''text'', JStr ''markdown'', JStr ''json'',
                                          JStr ''code'', JStr ''structured'']),
            (''structure'', JObj [
               (''includeConfidence'', JBool True),
               (''includeSources'', JBool True),
               (''includeTimestamp'', JBool True),
               (''includeContext'', JBool False)]),
            (''style'', JObj [
               (''tone'', JStr ''professional''),
               (''detail'', JStr ''comprehensive''),
               (''examples'', JBool True)])]
      in mk_layer env 10 ''Output Format'' Active outputFormat 0.6)"

definition buildUserQueryLayer :: "Env \<Rightarrow> string \<Rightarrow> ContextLayer" where
  "buildUserQueryLayer env userQuery =
     (let queryAnalysis = analyzeQuery userQuery;
          query = JObj [
            (''original'', JStr userQuery),
            (''processed'', opt_prop queryAnalysis ''processed''),
            (''intent'', opt_prop queryAnalysis ''intent''),
            (''entities'', opt_prop queryAnalysis ''entities''),
            (''complexity'', opt_prop queryAnalysis ''complexity''),
            (''requiresFiles'', opt_prop queryAnalysis ''requiresFiles''),
            (''expectedResponseType'', opt_prop queryAnalysis ''expectedResponseType''),
            (''timestamp'', JStr (date_now env 2))]
      in mk_layer env 11 ''User Query'' Active query 1.0)"

subsection \<open>Assembly\<close>

text \<open>
  \<open>buildContextWindow\<close> pushes the eleven layers in order and adds up their token
  counts. No builder can throw: every database read has its own \<open>catch\<close>.
\<close>

definition buildContextWindow :: "Env \<Rightarrow> User \<Rightarrow> string \<Rightarrow> string list \<Rightarrow> ContextWindow" where
  "buildContextWindow env user userQuery files =
     (let ls = [
            buildInstructionsLayer env,
            buildUserInfoLayer env user,
            buildKnowledgeLayer env user userQuery files,
            buildTaskGoalState env,
            buildMemoryLayer env user userQuery,
            buildToolsLayer env,
            buildExamplesLayer env userQuery,
            buildContextLayer env,
            buildConstraintsLayer env,
            buildOutputFormatLayer env userQuery,
            buildUserQueryLayer env userQuery];
          totalTokens = foldl (\<lambda>total layer. total + ContextLayer.tokenCount layer) 0 ls;
          activeLayers = map id' (filter (\<lambda>layer. status layer = Active) ls);
          relevanceScore = calculateRelevanceScore ls userQuery
      in \<lparr>layers = ls,
          activeLayers = activeLayers,
          relevanceScore = relevanceScore,
          tokenCount = totalTokens,
          lastUpdate = date_now env 3\<rparr>)"

subsection \<open>Memory search and the remaining engine surface\<close>

text \<open>
  The three tier searches and the combined search are placeholders that return the
  empty array; \<open>searchMemory\<close> dispatches on the tier name.
\<close>

definition searchShortTermMemory :: "Env \<Rightarrow> User \<Rightarrow> string \<Rightarrow> nat \<Rightarrow> jsval list" where
  "searchShortTermMemory env user query limit = []"

definition searchMediumTermMemory :: "Env \<Rightarrow> User \<Rightarrow> string \<Rightarrow> nat \<Rightarrow> jsval list" where
  "searchMediumTermMemory env user query limit = []"

definition searchAllMemory :: "Env \<Rightarrow> User \<Rightarrow> string \<Rightarrow> nat \<Rightarrow> jsval list" where
  "searchAllMemory env user query limit = []"

definition searchMemory :: "Env \<Rightarrow> User \<Rightarrow> string \<Rightarrow> string \<Rightarrow> nat \<Rightarrow> jsval list" where
  "searchMemory env user query memoryType limit =
     (if memoryType = ''short'' then searchShortTermMemory env user query limit
      else if memoryType = ''medium'' then searchMediumTermMemory env user query limit
      else if memoryType = ''long'' then searchLongTermMemory env user query limit
      else searchAllMemory env user query limit)"

text \<open>
  \<open>EmbeddingService.searchSimilarEmbeddings\<close>, with its defaults \<open>limit = 10\<close> and
  \<open>threshold = 0.7\<close> supplied by the caller: also a placeholder.
\<close>

definition searchSimilarEmbeddings :: "Env \<Rightarrow> real list \<Rightarrow> string \<Rightarrow> nat \<Rightarrow> real \<Rightarrow> jsval list" where
  "searchSimilarEmbeddings env queryEmbedding userId limit threshold = []"

text \<open>The row of the \<open>memory\<close> table as the object a search would return.\<close>

definition memory_item :: "MemoryRow \<Rightarrow> jsval" where
  "memory_item r = JObj [(''id'', JStr (memory_id r)),
                         (''memory_type'', JStr (memory_type r)),
                         (''content'', JStr (memory_content r))]"

text \<open>
  A layer id arriving from a route is the result of \<open>parseInt\<close>: an integer, or NaN
  (\<open>None\<close>).
\<close>

definition getStoredLayer :: "Env \<Rightarrow> int option \<Rightarrow> jsval" where
  "getStoredLayer env layerId = JNull"

definition storeLayerConfig :: "Env \<Rightarrow> int option \<Rightarrow> jsval \<Rightarrow> Env" where
  \<comment> \<open>an empty method body: nothing is stored\<close>
  "storeLayerConfig env layerId config = env"

definition updateLayerConfig :: "Env \<Rightarrow> int option \<Rightarrow> jsval \<Rightarrow> Env" where
  "updateLayerConfig env layerId updates = storeLayerConfig env layerId updates"

definition getLayerData :: "Env \<Rightarrow> int option \<Rightarrow> jsval" where
  "getLayerData env layerId =
     (let layer = getStoredLayer env layerId
      in js_or layer (JObj [(''error'', JStr ''Layer not found'')]))"

definition optimizeContext :: "Env \<Rightarrow> jsval \<Rightarrow> jsval \<Rightarrow> jsval" where
  "optimizeContext env targetSize preserveLayers = JObj []"

section \<open>The context routes\<close>

text \<open>
  \<open>parseInt(s)\<close> with no radix: leading white space is skipped, a sign is read, a
  \<open>0x\<close> prefix selects radix 16 (otherwise 10), and the longest run of digits is the
  value; with no digit the result is NaN (\<open>None\<close>). The value is kept as an exact
  integer: a JavaScript number rounds beyond \<open>2^53\<close>, which changes no comparison with
  1 or 11.
\<close>

definition digit_value :: "char \<Rightarrow> nat option" where
  "digit_value c =
     (let n = (of_char c :: nat)
      in if 48 \<le> n \<and> n \<le> 57 then Some (n - 48)
         else if 97 \<le> n \<and> n \<le> 122 then Some (n - 87)
         else if 65 \<le> n \<and> n \<le> 90 then Some (n - 55)
         else None)"

fun leading_digits :: "nat \<Rightarrow> string \<Rightarrow> nat list" where
  "leading_digits R [] = []"
| "leading_digits R (c # cs) =
     (case digit_value c of
        None \<Rightarrow> []
      | Some d \<Rightarrow> if d < R then d # leading_digits R cs else [])"

definition parseInt :: "string \<Rightarrow> int option" where
  "parseInt str =
     (let s = dropWhile is_space str;
          sign = (if startsWith s ''-'' then - 1 else 1);
          s1 = (if startsWith s ''-'' \<or> startsWith s ''+'' then drop 1 s else s);
          hex = (startsWith s1 ''0x'' \<or> startsWith s1 ''0X'');
          R = (if hex then 16 else 10);
          s2 = (if hex then drop 2 s1 else s1);
          ds = leading_digits R s2
      in if ds = [] then None
         else Some (sign * int (foldl (\<lambda>acc d. acc * R + d) 0 ds)))"

text \<open>\<open>x < k\<close> and \<open>x > k\<close> on numbers: every comparison with NaN is false.\<close>

definition num_lt :: "int option \<Rightarrow> int \<Rightarrow> bool" where
  "num_lt x k = (case x of None \<Rightarrow> False | Some n \<Rightarrow> n < k)"

definition num_gt :: "int option \<Rightarrow> int \<Rightarrow> bool" where
  "num_gt x k = (case x of None \<Rightarrow> False | Some n \<Rightarrow> n > k)"

text \<open>
  A handler's outcome: the engine methods it called, in order, and the response
  (\<open>c.json(body, status)\<close>; properties whose value is undefined are dropped when the
  body is serialised). A request body is what \<open>c.req.json()\<close> gives: the parsed value,
  or a thrown error.
\<close>

datatype EngineCall =
    GetLayerData "int option"
  | UpdateLayerConfig "int option" jsval
  | OptimizeContext jsval jsval

record Response =
  status_code :: nat
  body :: jsval

definition get_layer_route :: "Env \<Rightarrow> string \<Rightarrow> EngineCall list \<times> Response" where
  "get_layer_route env param =
     (let layerId = parseInt param
      in if num_lt layerId 1 \<or> num_gt layerId 11
         then ([], \<lparr>status_code = 400, body = JObj [(''error'', JStr ''Invalid layer ID (1-11)'')]\<rparr>)
         else (let layerData = getLayerData env layerId
               in ([GetLayerData layerId], \<lparr>status_code = 200, body = layerData\<rparr>)))"

definition put_layer_route :: "Env \<Rightarrow> string \<Rightarrow> exn + jsval \<Rightarrow> Env \<times> EngineCall list \<times> Response" where
  "put_layer_route env param req_json =
     (let layerId = parseInt param
      in case req_json of
           Inl e \<Rightarrow>
             (env, [], \<lparr>status_code = 500, body = JObj [(''error'', JStr ''Failed to update layer'')]\<rparr>)
         | Inr updates \<Rightarrow>
             if num_lt layerId 1 \<or> num_gt layerId 11
             then (env, [],
                   \<lparr>status_code = 400, body = JObj [(''error'', JStr ''Invalid layer ID (1-11)'')]\<rparr>)
             else (updateLayerConfig env layerId updates,
                   [UpdateLayerConfig layerId updates],
                   \<lparr>status_code = 200, body = JObj [(''success'', JBool True)]\<rparr>))"

text \<open>
  \<open>POST /optimize\<close>. Destructuring the body throws on null and undefined; the default
  \<open>preserveLayers = []\<close> applies when the property is undefined.
\<close>

definition optimize_route :: "Env \<Rightarrow> exn + jsval \<Rightarrow> EngineCall list \<times> Response" where
  "optimize_route env req_json =
     (let failed = \<lparr>status_code = 500, body = JObj [(''error'', JStr ''Failed to optimize context'')]\<rparr>
      in case req_json of
           Inl e \<Rightarrow> ([], failed)
         | Inr b \<Rightarrow>
             (case dot_prop b ''targetSize'' of
                Inl e \<Rightarrow> ([], failed)
              | Inr targetSize \<Rightarrow>
                  (let preserveLayers =
                         (if opt_prop b ''preserveLayers'' = JUndefined then JArr []
                          else opt_prop b ''preserveLayers'');
                       optimizationResult = optimizeContext env targetSize preserveLayers
                   in case dot_prop optimizationResult ''originalSize'' of
                        Inl e \<Rightarrow> ([OptimizeContext targetSize preserveLayers], failed)
                      | Inr originalSize \<Rightarrow>
                          ([OptimizeContext targetSize preserveLayers],
                           \<lparr>status_code = 200,
                            body = JObj [
                              (''success'', JBool True),
                              (''originalSize'', originalSize),
                              (''optimizedSize'', opt_prop optimizationResult ''optimizedSize''),
                              (''compressionRatio'', opt_prop optimizationResult ''compressionRatio''),
                              (''layersAffected'', opt_prop optimizationResult ''layersAffected''),
                              (''preservedContent'', opt_prop optimizationResult ''preservedContent'')]\<rparr>))))"

section \<open>The AI service\<close>

record AIOptions =
  model :: "string option"
  maxTokens :: "real option"
  temperature :: "real option"
  topP :: "real option"
  frequencyPenalty :: "real option"
  presencePenalty :: "real option"

record Usage =
  prompt_tokens :: nat
  completion_tokens :: nat
  total_tokens :: nat

text \<open>The confidence is a number; \<open>None\<close> is NaN.\<close>

record AIResponse =
  content :: string
  model :: string
  usage :: "Usage option"
  confidence :: "real option"
  processingTime :: string
  reasoning :: "string option"

text \<open>
  What the service has around it. The two chat backends are HTTP calls: each takes the
  prompt, the model name and the options, and either returns the reply or throws (the
  request fails, the status is not OK, the body lacks the expected fields). The prompt
  is rendered from the \<open>any\<close>-typed layer payloads and is only handed on to the
  backend; it enters as a function that may throw, so that what is proved about routing
  holds for every rendering. \<open>elapsed\<close> is the formatted processing time. The last two
  fields are the service's own two embedding requests.
\<close>

record AIEnv =
  buildPromptFromContext :: "ContextWindow \<Rightarrow> exn + string"
  callOpenAI :: "string \<Rightarrow> string \<Rightarrow> AIOptions \<Rightarrow> exn + AIResponse"
  callAnthropic :: "string \<Rightarrow> string \<Rightarrow> AIOptions \<Rightarrow> exn + AIResponse"
  elapsed :: string
  voyageEmbeddingRequest :: "string \<Rightarrow> exn + real list"
  openAIEmbeddingRequest :: "string \<Rightarrow> exn + real list"

text \<open>The requests a call sent out, in order.\<close>

datatype BackendCall =
    ChatOpenAI string string
  | ChatAnthropic string string

datatype EmbeddingCall =
    EmbedVoyage string
  | EmbedOpenAI string

text \<open>
  \<open>calculateConfidence\<close>. A NaN relevance makes every later sum NaN, and
  \<open>Math.min(NaN, 1.0)\<close> is NaN.
\<close>

definition calculateConfidence :: "AIResponse \<Rightarrow> ContextWindow \<Rightarrow> real option" where
  "calculateConfidence response contextWindow =
     (case ContextWindow.relevanceScore contextWindow of
        None \<Rightarrow> None
      | Some relevance \<Rightarrow>
          (let confidence0 = 0.5;
               confidence1 = confidence0 + relevance * 0.3;
               layerCount = length (activeLayers contextWindow);
               confidence2 = confidence1 + (real layerCount / 11) * 0.2;
               responseLength = length (content response);
               confidence3 = (if responseLength > 500 then confidence2 + 0.1 else confidence2);
               confidence4 = (if responseLength > 1000 then confidence3 + 0.1 else confidence3);
               confidence5 = (if str_includes (AIResponse.model response) ''gpt-4''
                              then confidence4 + 0.1 else confidence4);
               confidence6 = (if str_includes (AIResponse.model response) ''claude-3''
                              then confidence5 + 0.1 else confidence5)
           in Some (min confidence6 1.0)))"

text \<open>\<open>const model = options.model || 'gpt-4'\<close>: an absent or empty name is replaced.\<close>

definition selected_model :: "AIOptions \<Rightarrow> string" where
  "selected_model options =
     (case AIOptions.model options of
        None \<Rightarrow> ''gpt-4''
      | Some m \<Rightarrow> if m = [] then ''gpt-4'' else m)"

text \<open>The \<open>catch\<close> of \<open>generateResponse\<close>: whatever was thrown is thrown again, wrapped.\<close>

definition generation_failed :: "exn \<Rightarrow> exn" where
  "generation_failed error =
     Error (''AI generation failed: '' @
            (case error of Error message \<Rightarrow> message | NonError \<Rightarrow> ''Unknown error''))"

definition generateResponse ::
  "AIEnv \<Rightarrow> ContextWindow \<Rightarrow> AIOptions \<Rightarrow> BackendCall list \<times> (exn + AIResponse)" where
  "generateResponse env contextWindow options =
     (let model = selected_model options
      in case buildPromptFromContext env contextWindow of
           Inl e \<Rightarrow> ([], Inl (generation_failed e))
         | Inr prompt \<Rightarrow>
             if startsWith model ''gpt-'' then
               (case callOpenAI env prompt model options of
                  Inl e \<Rightarrow> ([ChatOpenAI prompt model], Inl (generation_failed e))
                | Inr response \<Rightarrow>
                    ([ChatOpenAI prompt model],
                     Inr (response\<lparr>processingTime := elapsed env,
                                    confidence := calculateConfidence response contextWindow\<rparr>)))
             else if startsWith model ''claude-'' then
               (case callAnthropic env prompt model options of
                  Inl e \<Rightarrow> ([ChatAnthropic prompt model], Inl (generation_failed e))
                | Inr response \<Rightarrow>
                    ([ChatAnthropic prompt model],
                     Inr (response\<lparr>processingTime := elapsed env,
                                    confidence := calculateConfidence response contextWindow\<rparr>)))
             else ([], Inl (generation_failed (Error (''Unsupported model: '' @ model)))))"

text \<open>
  \<open>AIService.generateEmbedding\<close>: the Voyage request sits in a \<open>try\<close>; its \<open>catch\<close>
  returns what the OpenAI request gives, error included.
\<close>

definition generateEmbedding :: "AIEnv \<Rightarrow> string \<Rightarrow> EmbeddingCall list \<times> (exn + real list)" where
  "generateEmbedding env text =
     (case voyageEmbeddingRequest env text of
        Inr embedding \<Rightarrow> ([EmbedVoyage text], Inr embedding)
      | Inl error \<Rightarrow> ([EmbedVoyage text, EmbedOpenAI text], openAIEmbeddingRequest env text))"

section \<open>The embedding service\<close>

record EmbeddingEnv =
  generateVoyageEmbedding :: "string \<Rightarrow> exn + real list"
  generateOpenAIEmbedding :: "string \<Rightarrow> exn + real list"

text \<open>
  \<open>cleanTextForEmbedding\<close>: every run of white space becomes one space, the ends are
  trimmed, control characters are removed, and the text is cut at 8000 characters.
  \<open>collapse_spaces prev\<close> walks the text; \<open>prev\<close> tells that the previous character
  was white space, already replaced.
\<close>

fun collapse_spaces :: "bool \<Rightarrow> string \<Rightarrow> string" where
  "collapse_spaces prev [] = []"
| "collapse_spaces prev (c # cs) =
     (if is_space c
      then (if prev then collapse_spaces True cs else CHR '' '' # collapse_spaces True cs)
      else c # collapse_spaces False cs)"

definition is_control :: "char \<Rightarrow> bool" where
  "is_control c = ((of_char c :: nat) \<le> 31 \<or> (of_char c :: nat) = 127)"

definition cleanTextForEmbedding :: "string \<Rightarrow> string" where
  "cleanTextForEmbedding text =
     (let cleaned = trim (collapse_spaces False text);
          cleaned = filter (\<lambda>c. \<not> is_control c) cleaned
      in if length cleaned > 8000 then take 8000 cleaned else cleaned)"

definition generateSingleEmbedding ::
  "EmbeddingEnv \<Rightarrow> string \<Rightarrow> EmbeddingCall list \<times> (exn + real list)" where
  "generateSingleEmbedding env text =
     (let cleanText = cleanTextForEmbedding text
      in case generateVoyageEmbedding env cleanText of
           Inr v \<Rightarrow> ([EmbedVoyage cleanText], Inr v)
         | Inl voyageError \<Rightarrow>
             (case generateOpenAIEmbedding env cleanText of
                Inr v \<Rightarrow> ([EmbedVoyage cleanText, EmbedOpenAI cleanText], Inr v)
              | Inl openaiError \<Rightarrow>
                  ([EmbedVoyage cleanText, EmbedOpenAI cleanText],
                   Inl (Error ''All embedding services unavailable''))))"

section \<open>A session with empty history\<close>

text \<open>
  A concrete environment for evaluating the engine: a database with no rows for the
  user (the aggregate queries answer with a zero count), and a fixed clock. The
  serialiser here is a stand-in that writes every value as an empty object; the
  properties evaluated on this environment do not read token counts.
\<close>

definition empty_session :: Env where
  "empty_session =
     \<lparr>memory_rows = [],
      user_preferences_first = (\<lambda>uid. Inr JNull),
      session_stats_first =
        (\<lambda>sid. Inr (JObj [(''message_count'', JNum 0), (''last_activity'', JNull)])),
      recent_messages_all = (\<lambda>sid. Inr (JObj [(''results'', JArr [])])),
      files_all = (\<lambda>ids uid. Inr (JObj [(''results'', JArr [])])),
      document_count_first = (\<lambda>uid. Inr (JObj [(''count'', JNum 0)])),
      JSON_parse = (\<lambda>v. Inl (Error ''Unexpected token'')),
      JSON_stringify = (\<lambda>v. ''{}''),
      date_now = (\<lambda>k. ''2024-01-01T00:00:00.000Z'')\<rparr>"

definition anon :: User where
  "anon = \<lparr>user_id = ''anon_s1'', user_sessionId = ''s1''\<rparr>"

text \<open>
  A concrete surrounding for the AI service: the prompt renders, the OpenAI chat
  backend is down, the Anthropic backend answers, the Voyage embedding request is
  refused and the OpenAI embedding request answers.
\<close>

definition hello_reply :: "string \<Rightarrow> AIResponse" where
  "hello_reply m =
     \<lparr>content = ''Hello'', model = m, usage = None, confidence = Some 0.85,
      processingTime = ''0s'', reasoning = None\<rparr>"

definition demo_ai :: AIEnv where
  "demo_ai =
     \<lparr>buildPromptFromContext = (\<lambda>cw. Inr ''# User Query''),
      callOpenAI = (\<lambda>prompt m opts. Inl (Error ''OpenAI API error: 503 - overloaded'')),
      callAnthropic = (\<lambda>prompt m opts. Inr (hello_reply m)),
      elapsed = ''0.42s'',
      voyageEmbeddingRequest = (\<lambda>t. Inl (Error ''Voyage API error: 429'')),
      openAIEmbeddingRequest = (\<lambda>t. Inr [0.1, 0.2])\<rparr>"

definition demo_embedding :: EmbeddingEnv where
  "demo_embedding =
     \<lparr>generateVoyageEmbedding = (\<lambda>t. Inl (Error ''Voyage API error 429: rate limited'')),
      generateOpenAIEmbedding = (\<lambda>t. Inr [0.1, 0.2])\<rparr>"

definition with_model :: "string \<Rightarrow> AIOptions" where
  "with_model m =
     \<lparr>AIOptions.model = Some m, maxTokens = None, temperature = None, topP = None,
      frequencyPenalty = None, presencePenalty = None\<rparr>"

section \<open>Properties\<close>

lemma foldl_weighted_sum:
  "foldl (\<lambda>sum layer. sum + ContextLayer.relevanceScore layer * activeWeight layer) a ls =
   a + (\<Sum>layer\<leftarrow>ls. ContextLayer.relevanceScore layer * activeWeight layer)"
  by (induction ls arbitrary: a) simp_all

lemma weighted_sum_bounds:
  assumes "\<forall>l \<in> set ls. 0 \<le> ContextLayer.relevanceScore l \<and> ContextLayer.relevanceScore l \<le> 1"
  shows "0 \<le> (\<Sum>layer\<leftarrow>ls. ContextLayer.relevanceScore layer * activeWeight layer)
       \<and> (\<Sum>layer\<leftarrow>ls. ContextLayer.relevanceScore layer * activeWeight layer) \<le> real (length ls)"
  using assms
proof (induction ls)
  case Nil
  then show ?case by simp
next
  case (Cons l ls')
  have w: "0 \<le> activeWeight l \<and> activeWeight l \<le> 1"
    by (simp add: activeWeight_def)
  have r: "0 \<le> ContextLayer.relevanceScore l \<and> ContextLayer.relevanceScore l \<le> 1"
    using Cons.prems by simp
  have "0 \<le> ContextLayer.relevanceScore l * activeWeight l"
    using w r by simp
  moreover have "ContextLayer.relevanceScore l * activeWeight l \<le> 1"
    using w r by (simp add: mult_le_one)
  ultimately show ?case
    using Cons by simp
qed

text \<open>
  C3. For a list of 11 layers whose relevance scores lie in [0,1], the aggregate
  relevance is the sum of relevanceScore times activeWeight (1 for an active layer,
  0.1 otherwise) divided by 11, and it lies in [0,1].
\<close>

theorem calculateRelevanceScore_aggregate:
  assumes "length ls = 11"
    and "\<forall>l \<in> set ls. 0 \<le> ContextLayer.relevanceScore l \<and> ContextLayer.relevanceScore l \<le> 1"
  shows "\<exists>r. calculateRelevanceScore ls userQuery = Some r
           \<and> r = (\<Sum>l\<leftarrow>ls. ContextLayer.relevanceScore l * (if status l = Active then 1 else 0.1)) / 11
           \<and> 0 \<le> r \<and> r \<le> 1"
proof -
  let ?s = "\<Sum>layer\<leftarrow>ls. ContextLayer.relevanceScore layer * activeWeight layer"
  have b: "0 \<le> ?s \<and> ?s \<le> 11"
    using weighted_sum_bounds [OF assms(2)] assms(1) by simp
  have e: "?s = (\<Sum>l\<leftarrow>ls. ContextLayer.relevanceScore l * (if status l = Active then 1 else 0.1))"
    by (simp add: activeWeight_def)
  have "calculateRelevanceScore ls userQuery = Some (min (?s / 11) 1)"
    by (simp add: calculateRelevanceScore_def foldl_weighted_sum assms(1))
  moreover have "min (?s / 11) 1 = ?s / 11"
    using b by simp
  ultimately have c: "calculateRelevanceScore ls userQuery = Some (?s / 11)"
    by simp
  have r: "0 \<le> ?s / 11 \<and> ?s / 11 \<le> 1"
    using b by simp
  show ?thesis
    using c r unfolding e by blast
qed

subsection \<open>Layer builders\<close>

lemma builder_ids:
  "id' (buildInstructionsLayer env) = 1"
  "id' (buildUserInfoLayer env user) = 2"
  "id' (buildKnowledgeLayer env user q files) = 3"
  "id' (buildTaskGoalState env) = 4"
  "id' (buildMemoryLayer env user q) = 5"
  "id' (buildToolsLayer env) = 6"
  "id' (buildExamplesLayer env q) = 7"
  "id' (buildContextLayer env) = 8"
  "id' (buildConstraintsLayer env) = 9"
  "id' (buildOutputFormatLayer env q) = 10"
  "id' (buildUserQueryLayer env q) = 11"
  by (simp_all add: buildInstructionsLayer_def buildUserInfoLayer_def buildKnowledgeLayer_def
      buildTaskGoalState_def buildMemoryLayer_def buildToolsLayer_def buildExamplesLayer_def
      buildContextLayer_def buildConstraintsLayer_def buildOutputFormatLayer_def
      buildUserQueryLayer_def mk_layer_def Let_def)

lemma builder_status:
  "status (buildInstructionsLayer env) = Active"
  "status (buildUserInfoLayer env user) = Active"
  "status (buildKnowledgeLayer env user q files) = (if files = [] then Inactive else Active)"
  "status (buildTaskGoalState env) = Inactive"
  "status (buildMemoryLayer env user q) = Active"
  "status (buildToolsLayer env) = Inactive"
  "status (buildExamplesLayer env q) = Inactive"
  "status (buildContextLayer env) = Active"
  "status (buildConstraintsLayer env) = Active"
  "status (buildOutputFormatLayer env q) = Active"
  "status (buildUserQueryLayer env q) = Active"
  by (simp_all add: buildInstructionsLayer_def buildUserInfoLayer_def buildKnowledgeLayer_def
      buildTaskGoalState_def buildMemoryLayer_def buildToolsLayer_def buildExamplesLayer_def
      buildContextLayer_def buildConstraintsLayer_def buildOutputFormatLayer_def
      buildUserQueryLayer_def mk_layer_def Let_def retrieveRelevantDocuments_def
      getCurrentTasks_def getRelevantExamples_def getFewShotExamples_def)

lemma builder_relevance:
  "ContextLayer.relevanceScore (buildInstructionsLayer env) = 1"
  "ContextLayer.relevanceScore (buildUserInfoLayer env user) = 0.8"
  "ContextLayer.relevanceScore (buildKnowledgeLayer env user q files) = (if files = [] then 0.1 else 0.9)"
  "ContextLayer.relevanceScore (buildTaskGoalState env) = 0.2"
  "ContextLayer.relevanceScore (buildMemoryLayer env user q) = 0.7"
  "ContextLayer.relevanceScore (buildToolsLayer env) = 0.3"
  "ContextLayer.relevanceScore (buildExamplesLayer env q) = 0.1"
  "ContextLayer.relevanceScore (buildContextLayer env) = 0.9"
  "ContextLayer.relevanceScore (buildConstraintsLayer env) = 0.5"
  "ContextLayer.relevanceScore (buildOutputFormatLayer env q) = 0.6"
  "ContextLayer.relevanceScore (buildUserQueryLayer env q) = 1"
  by (simp_all add: buildInstructionsLayer_def buildUserInfoLayer_def buildKnowledgeLayer_def
      buildTaskGoalState_def buildMemoryLayer_def buildToolsLayer_def buildExamplesLayer_def
      buildContextLayer_def buildConstraintsLayer_def buildOutputFormatLayer_def
      buildUserQueryLayer_def mk_layer_def Let_def retrieveRelevantDocuments_def
      getCurrentTasks_def getRelevantExamples_def getFewShotExamples_def)

lemma layers_buildContextWindow:
  "layers (buildContextWindow env user q files) =
     [buildInstructionsLayer env,
      buildUserInfoLayer env user,
      buildKnowledgeLayer env user q files,
      buildTaskGoalState env,
      buildMemoryLayer env user q,
      buildToolsLayer env,
      buildExamplesLayer env q,
      buildContextLayer env,
      buildConstraintsLayer env,
      buildOutputFormatLayer env q,
      buildUserQueryLayer env q]"
  by (simp add: buildContextWindow_def Let_def)

text \<open>
  C1. Whatever the database answers (rows, no rows, or a thrown error on any query),
  whatever the query string and the attached files, the context window has exactly
  eleven layers, with ids 1 to 11 in that order.
\<close>

theorem buildContextWindow_eleven_layers:
  "length (layers (buildContextWindow env user userQuery files)) = 11
   \<and> map id' (layers (buildContextWindow env user userQuery files))
       = [1, 2, 3, 4, 5, 6, 7, 8, 9, 10, 11]"
  by (simp add: layers_buildContextWindow builder_ids)

lemma relevance_buildContextWindow:
  "ContextWindow.relevanceScore (buildContextWindow env user q files) =
     Some (if files = [] then 557 / 1100 else 646 / 1100)"
  by (simp add: buildContextWindow_def Let_def calculateRelevanceScore_def activeWeight_def
      builder_status builder_relevance)

lemma memory_layer_tiers:
  "opt_prop (opt_prop (data (buildMemoryLayer env user q)) ''shortTerm'') ''items'' = JArr []"
  "opt_prop (opt_prop (data (buildMemoryLayer env user q)) ''mediumTerm'') ''items'' = JArr []"
  "opt_prop (opt_prop (data (buildMemoryLayer env user q)) ''longTerm'') ''items'' = JArr []"
  by (simp_all add: buildMemoryLayer_def mk_layer_def Let_def getShortTermMemory_def
      getMediumTermMemory_def searchLongTermMemory_def)

lemma query_layer_complexity:
  "opt_prop (data (buildUserQueryLayer env q)) ''complexity'' = JStr (assessComplexity q)"
  by (simp add: buildUserQueryLayer_def mk_layer_def Let_def analyzeQuery_def)

text \<open>
  C4 as stated fails: for the session with empty history, no files and the query "hi",
  the aggregate relevance is not below 0.5.
\<close>

theorem hi_scenario_relevance_counterexample:
  "\<not> (\<exists>r. ContextWindow.relevanceScore (buildContextWindow empty_session anon ''hi'' []) = Some r
          \<and> r < 0.5)"
  by (simp add: relevance_buildContextWindow)

text \<open>
  C4, amended. For every session (in particular one with empty history), no files and
  the query "hi" (one word when split at spaces): the UserQuery layer reports
  complexity "simple", the Knowledge layer is inactive, the Memory layer is active
  with three empty tiers, and the aggregate relevance is 5.57 / 11 (about 0.506),
  which is above 0.5.
\<close>

theorem hi_scenario:
  "length (split_space ''hi'') = 1
   \<and> map id' (layers (buildContextWindow env user ''hi'' [])) = [1, 2, 3, 4, 5, 6, 7, 8, 9, 10, 11]
   \<and> opt_prop (data (layers (buildContextWindow env user ''hi'' []) ! 10)) ''complexity''
       = JStr ''simple''
   \<and> status (layers (buildContextWindow env user ''hi'' []) ! 2) = Inactive
   \<and> status (layers (buildContextWindow env user ''hi'' []) ! 4) = Active
   \<and> opt_prop (opt_prop (data (layers (buildContextWindow env user ''hi'' []) ! 4)) ''shortTerm'')
        ''items'' = JArr []
   \<and> opt_prop (opt_prop (data (layers (buildContextWindow env user ''hi'' []) ! 4)) ''mediumTerm'')
        ''items'' = JArr []
   \<and> opt_prop (opt_prop (data (layers (buildContextWindow env user ''hi'' []) ! 4)) ''longTerm'')
        ''items'' = JArr []
   \<and> ContextWindow.relevanceScore (buildContextWindow env user ''hi'' []) = Some (557 / 1100)
   \<and> (1 / 2 :: real) < 557 / 1100"
proof -
  have c: "assessComplexity ''hi'' = ''simple''"
    by (simp add: assessComplexity_def)
  show ?thesis
    by (simp add: layers_buildContextWindow builder_ids builder_status memory_layer_tiers
        query_layer_complexity c relevance_buildContextWindow)
qed

text \<open>
  C6. The Knowledge layer is the third layer, with id 3. It is active exactly when
  retrieval returned at least one document or at least one file is attached, and its
  relevance is 0.9 when active and 0.1 when inactive.
\<close>

theorem knowledge_layer_activation:
  "id' (layers (buildContextWindow env user userQuery files) ! 2) = 3
   \<and> (status (layers (buildContextWindow env user userQuery files) ! 2) = Active
        \<longleftrightarrow> (length (retrieveRelevantDocuments userQuery) \<ge> 1 \<or> length files \<ge> 1))
   \<and> status (layers (buildContextWindow env user userQuery files) ! 2) \<in> {Active, Inactive}
   \<and> ContextLayer.relevanceScore (layers (buildContextWindow env user userQuery files) ! 2)
       = (if status (layers (buildContextWindow env user userQuery files) ! 2) = Active
          then 0.9 else 0.1)"
  by (cases files)
     (simp_all add: layers_buildContextWindow builder_ids builder_status builder_relevance
        retrieveRelevantDocuments_def)

theorem knowledge_layer_activation_witness:
  "status (layers (buildContextWindow empty_session anon ''summarize this'' [''file-1'']) ! 2) = Active
   \<and> ContextLayer.relevanceScore
        (layers (buildContextWindow empty_session anon ''summarize this'' [''file-1'']) ! 2) = 0.9
   \<and> status (layers (buildContextWindow empty_session anon ''summarize this'' []) ! 2) = Inactive
   \<and> ContextLayer.relevanceScore
        (layers (buildContextWindow empty_session anon ''summarize this'' []) ! 2) = 0.1"
  using knowledge_layer_activation [of empty_session anon "''summarize this''" "[''file-1'']"]
        knowledge_layer_activation [of empty_session anon "''summarize this''" "[]"]
  by (auto simp add: retrieveRelevantDocuments_def)

theorem calculateRelevanceScore_aggregate_witness:
  "length (layers (buildContextWindow empty_session anon ''hi'' [])) = 11
   \<and> list_all (\<lambda>l. 0 \<le> ContextLayer.relevanceScore l \<and> ContextLayer.relevanceScore l \<le> 1)
         (layers (buildContextWindow empty_session anon ''hi'' []))
   \<and> (\<exists>r. calculateRelevanceScore (layers (buildContextWindow empty_session anon ''hi'' [])) ''hi''
            = Some r \<and> 0 \<le> r \<and> r \<le> 1)"
proof -
  have n: "length (layers (buildContextWindow empty_session anon ''hi'' [])) = 11"
    by (simp add: layers_buildContextWindow)
  have b: "\<forall>l \<in> set (layers (buildContextWindow empty_session anon ''hi'' [])).
             0 \<le> ContextLayer.relevanceScore l \<and> ContextLayer.relevanceScore l \<le> 1"
    by (simp add: layers_buildContextWindow builder_relevance)
  show ?thesis
    using n b calculateRelevanceScore_aggregate [OF n b, of "''hi''"]
    unfolding list_all_iff by blast
qed

subsection \<open>Memory search\<close>

text \<open>
  C5 as stated fails: with one long-tier item stored, a long-tier search with the
  item's own content as the query returns nothing, so the item is not among the results.
\<close>

theorem memory_round_trip_counterexample:
  "memory_type \<lparr>memory_id = ''m1'', memory_type = ''long'', memory_content = ''the capital of France is Paris''\<rparr>
     = ''long''
   \<and> \<lparr>memory_id = ''m1'', memory_type = ''long'', memory_content = ''the capital of France is Paris''\<rparr>
       \<in> set (memory_rows (empty_session\<lparr>memory_rows :=
             [\<lparr>memory_id = ''m1'', memory_type = ''long'',
               memory_content = ''the capital of France is Paris''\<rparr>]\<rparr>))
   \<and> memory_item \<lparr>memory_id = ''m1'', memory_type = ''long'', memory_content = ''the capital of France is Paris''\<rparr>
       \<notin> set (searchMemory
                (empty_session\<lparr>memory_rows :=
                   [\<lparr>memory_id = ''m1'', memory_type = ''long'',
                     memory_content = ''the capital of France is Paris''\<rparr>]\<rparr>)
                anon ''the capital of France is Paris'' ''long'' 10)"
  by (simp add: searchMemory_def searchLongTermMemory_def)

text \<open>
  C5, amended. Memory search is a placeholder: for every stored content, query, tier
  and limit, \<open>searchMemory\<close> returns the empty list, and so does the similarity search
  over embeddings; no stored item is returned, whatever the query.
\<close>

theorem searchMemory_empty:
  "searchMemory env user query memoryType limit = []
   \<and> searchLongTermMemory env user query limit = []
   \<and> searchSimilarEmbeddings env queryEmbedding userId limit threshold = []"
  by (simp add: searchMemory_def searchShortTermMemory_def searchMediumTermMemory_def
      searchLongTermMemory_def searchAllMemory_def searchSimilarEmbeddings_def)

subsection \<open>Routes\<close>

text \<open>
  C2 as stated fails: asked to fit the context into 50 tokens, the optimiser returns
  normally (the route answers 200 with success) and the result carries no size at
  all, so it is neither an error nor a total of at most 50.
\<close>

theorem optimize_counterexample:
  "\<not> (status_code (snd (optimize_route empty_session (Inr (JObj [(''targetSize'', JNum 50)])))) = 500
       \<or> (\<exists>n. opt_prop (body (snd (optimize_route empty_session
                     (Inr (JObj [(''targetSize'', JNum 50)]))))) ''optimizedSize'' = JNum n
              \<and> n \<le> 50))"
  by (simp add: optimize_route_def optimizeContext_def Let_def)

text \<open>
  C2, amended. The optimiser is a placeholder: for every target size and every list of
  layers to preserve, \<open>optimizeContext\<close> returns the empty object. It raises no error,
  reports no size and touches no layer. The route calls it once and, whenever the
  request body can be destructured, answers 200 with \<open>success = true\<close> and every size
  field undefined.
\<close>

theorem optimizeContext_placeholder:
  "optimizeContext env targetSize preserveLayers = JObj []
   \<and> optimize_route env (Inr (JObj [(''targetSize'', targetSize), (''preserveLayers'', JArr ids)]))
       = ([OptimizeContext targetSize (JArr ids)],
          \<lparr>status_code = 200,
           body = JObj [(''success'', JBool True),
                        (''originalSize'', JUndefined),
                        (''optimizedSize'', JUndefined),
                        (''compressionRatio'', JUndefined),
                        (''layersAffected'', JUndefined),
                        (''preservedContent'', JUndefined)]\<rparr>)"
  by (simp add: optimize_route_def optimizeContext_def Let_def)

text \<open>
  C10. The path parameter "abc" is not a numeral: \<open>parseInt\<close> gives NaN, neither
  comparison of the range check holds, and both layer routes go on to call the engine
  with NaN instead of answering 400. The GET route answers 200 with the engine's
  "Layer not found" object; the PUT route, given a readable body, answers 200 with
  success.
\<close>

theorem layer_routes_accept_nan:
  "parseInt ''abc'' = None
   \<and> get_layer_route env ''abc''
       = ([GetLayerData None],
          \<lparr>status_code = 200, body = JObj [(''error'', JStr ''Layer not found'')]\<rparr>)
   \<and> status_code (snd (get_layer_route env ''abc'')) \<noteq> 400
   \<and> put_layer_route env ''abc'' (Inr updates)
       = (env, [UpdateLayerConfig None updates],
          \<lparr>status_code = 200, body = JObj [(''success'', JBool True)]\<rparr>)
   \<and> status_code (snd (snd (put_layer_route env ''abc'' req_json))) \<noteq> 400"
proof -
  have p: "parseInt ''abc'' = None"
    by (simp add: parseInt_def Let_def is_space_def digit_value_def)
  have g: "get_layer_route env ''abc''
       = ([GetLayerData None],
          \<lparr>status_code = 200, body = JObj [(''error'', JStr ''Layer not found'')]\<rparr>)"
    by (simp add: get_layer_route_def p num_lt_def num_gt_def getLayerData_def
        getStoredLayer_def js_or_def)
  have u: "put_layer_route env ''abc'' (Inr updates)
       = (env, [UpdateLayerConfig None updates],
          \<lparr>status_code = 200, body = JObj [(''success'', JBool True)]\<rparr>)"
    by (simp add: put_layer_route_def p num_lt_def num_gt_def updateLayerConfig_def
        storeLayerConfig_def)
  have n: "status_code (snd (snd (put_layer_route env ''abc'' req_json))) \<noteq> 400"
    by (cases req_json) (simp_all add: put_layer_route_def p num_lt_def num_gt_def)
  show ?thesis
    using p g u n by simp
qed

subsection \<open>Confidence\<close>

lemma activeLayers_buildContextWindow:
  "activeLayers (buildContextWindow env user q files) =
     (if files = [] then [1, 2, 5, 8, 9, 10, 11] else [1, 2, 3, 5, 8, 9, 10, 11])"
  by (simp add: buildContextWindow_def Let_def builder_status builder_ids)

text \<open>
  C9. For a context window whose aggregate relevance lies in [0,1], the confidence is
  the sum of the base 0.5, the relevance term, the active-layer term, the two length
  bonuses and the two model bonuses, capped at 1. Every term is non-negative, and the
  confidence lies in [0,1].
\<close>

theorem calculateConfidence_bounded:
  assumes "ContextWindow.relevanceScore cw = Some r" and "0 \<le> r" and "r \<le> 1"
  shows "\<exists>c. calculateConfidence response cw = Some c
           \<and> c = min (0.5
                       + r * 0.3
                       + (real (length (activeLayers cw)) / 11) * 0.2
                       + (if length (content response) > 500 then 0.1 else 0)
                       + (if length (content response) > 1000 then 0.1 else 0)
                       + (if str_includes (AIResponse.model response) ''gpt-4'' then 0.1 else 0)
                       + (if str_includes (AIResponse.model response) ''claude-3'' then 0.1 else 0)) 1
           \<and> 0 \<le> r * 0.3
           \<and> 0 \<le> (real (length (activeLayers cw)) / 11) * 0.2
           \<and> 0 \<le> c \<and> c \<le> 1"
proof -
  let ?n = "(real (length (activeLayers cw)) / 11) * 0.2"
  have t1: "0 \<le> r * 0.3"
    using assms(2) by simp
  have t2: "0 \<le> ?n"
    by simp
  show ?thesis
    using t1 t2 assms(1) by (simp add: calculateConfidence_def Let_def min_def)
qed

theorem calculateConfidence_bounded_witness:
  "ContextWindow.relevanceScore (buildContextWindow empty_session anon ''hi'' []) = Some (557 / 1100)
   \<and> calculateConfidence (hello_reply ''gpt-4'') (buildContextWindow empty_session anon ''hi'' [])
       = Some (9671 / 11000)"
proof -
  have r: "ContextWindow.relevanceScore (buildContextWindow empty_session anon ''hi'' [])
             = Some (557 / 1100)"
    by (simp add: relevance_buildContextWindow)
  have i: "str_includes ''gpt-4'' ''gpt-4''" "\<not> str_includes ''gpt-4'' ''claude-3''"
    by simp_all
  show ?thesis
    using r i calculateConfidence_bounded [OF r, of "hello_reply ''gpt-4''"]
    by (auto simp add: activeLayers_buildContextWindow hello_reply_def)
qed

subsection \<open>Generation and embeddings\<close>

text \<open>
  C7. The model name is \<open>options.model\<close>, or "gpt-4" when that is absent or empty.
  Once the prompt is rendered, a name starting with "gpt-" sends exactly one request,
  to OpenAI, and a name starting with "claude-" exactly one request, to Anthropic.
  A name with neither prefix sends no request and raises an error ("Unsupported
  model"). When the chosen backend fails, its error is raised again, wrapped, and no
  second request goes to the other backend: no call sends more than one request.
  (Should rendering the prompt throw, that error is raised, wrapped, before any
  backend is chosen.)
\<close>

theorem generateResponse_routing:
  "(\<forall>prompt. buildPromptFromContext env cw = Inr prompt \<longrightarrow>
      (startsWith (selected_model options) ''gpt-'' \<longrightarrow>
         fst (generateResponse env cw options) = [ChatOpenAI prompt (selected_model options)]
         \<and> (\<forall>e. callOpenAI env prompt (selected_model options) options = Inl e \<longrightarrow>
                snd (generateResponse env cw options) = Inl (generation_failed e))
         \<and> (\<forall>reply. callOpenAI env prompt (selected_model options) options = Inr reply \<longrightarrow>
                snd (generateResponse env cw options)
                  = Inr (reply\<lparr>processingTime := elapsed env,
                               confidence := calculateConfidence reply cw\<rparr>)))
      \<and> (\<not> startsWith (selected_model options) ''gpt-''
           \<and> startsWith (selected_model options) ''claude-'' \<longrightarrow>
         fst (generateResponse env cw options) = [ChatAnthropic prompt (selected_model options)]
         \<and> (\<forall>e. callAnthropic env prompt (selected_model options) options = Inl e \<longrightarrow>
                snd (generateResponse env cw options) = Inl (generation_failed e))
         \<and> (\<forall>reply. callAnthropic env prompt (selected_model options) options = Inr reply \<longrightarrow>
                snd (generateResponse env cw options)
                  = Inr (reply\<lparr>processingTime := elapsed env,
                               confidence := calculateConfidence reply cw\<rparr>)))
      \<and> (\<not> startsWith (selected_model options) ''gpt-''
           \<and> \<not> startsWith (selected_model options) ''claude-'' \<longrightarrow>
         snd (generateResponse env cw options)
           = Inl (Error (''AI generation failed: Unsupported model: '' @ selected_model options))))
   \<and> (\<not> startsWith (selected_model options) ''gpt-''
        \<and> \<not> startsWith (selected_model options) ''claude-'' \<longrightarrow>
      fst (generateResponse env cw options) = [] \<and> isl (snd (generateResponse env cw options)))
   \<and> (\<forall>e. buildPromptFromContext env cw = Inl e \<longrightarrow>
          generateResponse env cw options = ([], Inl (generation_failed e)))
   \<and> length (fst (generateResponse env cw options)) \<le> 1"
  by (auto simp add: generateResponse_def Let_def generation_failed_def split: sum.splits)

theorem generateResponse_routing_witness:
  "generateResponse demo_ai (buildContextWindow empty_session anon ''hi'' []) (with_model ''gpt-4'')
     = ([ChatOpenAI ''# User Query'' ''gpt-4''],
        Inl (Error ''AI generation failed: OpenAI API error: 503 - overloaded''))
   \<and> generateResponse demo_ai (buildContextWindow empty_session anon ''hi'' [])
        (with_model ''claude-3-opus'')
       = ([ChatAnthropic ''# User Query'' ''claude-3-opus''],
          Inr \<lparr>content = ''Hello'', model = ''claude-3-opus'', usage = None,
               confidence = Some (9671 / 11000), processingTime = ''0.42s'',
               reasoning = None\<rparr>)
   \<and> generateResponse demo_ai (buildContextWindow empty_session anon ''hi'' []) (with_model ''llama-3'')
       = ([], Inl (Error ''AI generation failed: Unsupported model: llama-3''))"
proof -
  let ?cw = "buildContextWindow empty_session anon ''hi'' []"
  have p: "buildPromptFromContext demo_ai ?cw = Inr ''# User Query''"
    by (simp add: demo_ai_def)
  have m: "selected_model (with_model ''gpt-4'') = ''gpt-4''"
          "selected_model (with_model ''claude-3-opus'') = ''claude-3-opus''"
          "selected_model (with_model ''llama-3'') = ''llama-3''"
    by (simp_all add: selected_model_def with_model_def)
  have f: "callOpenAI demo_ai ''# User Query'' ''gpt-4'' (with_model ''gpt-4'')
             = Inl (Error ''OpenAI API error: 503 - overloaded'')"
    by (simp add: demo_ai_def)
  have g: "fst (generateResponse demo_ai ?cw (with_model ''gpt-4''))
             = [ChatOpenAI ''# User Query'' ''gpt-4'']
           \<and> snd (generateResponse demo_ai ?cw (with_model ''gpt-4''))
             = Inl (generation_failed (Error ''OpenAI API error: 503 - overloaded''))"
    using generateResponse_routing [of demo_ai ?cw "with_model ''gpt-4''"] p m f by simp
  have a: "callAnthropic demo_ai ''# User Query'' ''claude-3-opus'' (with_model ''claude-3-opus'')
             = Inr (hello_reply ''claude-3-opus'')"
    by (simp add: demo_ai_def)
  have k: "calculateConfidence (hello_reply ''claude-3-opus'') ?cw = Some (9671 / 11000)"
    by (simp add: calculateConfidence_def relevance_buildContextWindow
        activeLayers_buildContextWindow hello_reply_def Let_def)
  have c: "fst (generateResponse demo_ai ?cw (with_model ''claude-3-opus''))
             = [ChatAnthropic ''# User Query'' ''claude-3-opus'']
           \<and> snd (generateResponse demo_ai ?cw (with_model ''claude-3-opus''))
             = Inr ((hello_reply ''claude-3-opus'')\<lparr>processingTime := elapsed demo_ai,
                      confidence := calculateConfidence (hello_reply ''claude-3-opus'') ?cw\<rparr>)"
    using generateResponse_routing [of demo_ai ?cw "with_model ''claude-3-opus''"] p m a by simp
  have t: "elapsed demo_ai = ''0.42s''"
    by (simp add: demo_ai_def)
  have l: "fst (generateResponse demo_ai ?cw (with_model ''llama-3'')) = []
           \<and> snd (generateResponse demo_ai ?cw (with_model ''llama-3''))
             = Inl (Error ''AI generation failed: Unsupported model: llama-3'')"
    using generateResponse_routing [of demo_ai ?cw "with_model ''llama-3''"] p m by simp
  show ?thesis
    using g c l k t by (simp add: prod_eq_iff generation_failed_def hello_reply_def)
qed

text \<open>
  C8. Both embedding entry points send the text to Voyage first. The OpenAI request is
  sent exactly when the Voyage request failed, and then once. The caller gets an error
  exactly when both requests failed; otherwise it gets the vector of the first
  provider that answered.
\<close>

theorem embedding_fallback:
  "fst (generateSingleEmbedding es text)
     = (if isl (generateVoyageEmbedding es (cleanTextForEmbedding text))
        then [EmbedVoyage (cleanTextForEmbedding text), EmbedOpenAI (cleanTextForEmbedding text)]
        else [EmbedVoyage (cleanTextForEmbedding text)])
   \<and> isl (snd (generateSingleEmbedding es text))
       = (isl (generateVoyageEmbedding es (cleanTextForEmbedding text))
          \<and> isl (generateOpenAIEmbedding es (cleanTextForEmbedding text)))
   \<and> snd (generateSingleEmbedding es text)
       = (if \<not> isl (generateVoyageEmbedding es (cleanTextForEmbedding text))
          then generateVoyageEmbedding es (cleanTextForEmbedding text)
          else if \<not> isl (generateOpenAIEmbedding es (cleanTextForEmbedding text))
          then generateOpenAIEmbedding es (cleanTextForEmbedding text)
          else Inl (Error ''All embedding services unavailable''))
   \<and> fst (generateEmbedding env text)
       = (if isl (voyageEmbeddingRequest env text)
          then [EmbedVoyage text, EmbedOpenAI text]
          else [EmbedVoyage text])
   \<and> isl (snd (generateEmbedding env text))
       = (isl (voyageEmbeddingRequest env text) \<and> isl (openAIEmbeddingRequest env text))
   \<and> snd (generateEmbedding env text)
       = (if \<not> isl (voyageEmbeddingRequest env text)
          then voyageEmbeddingRequest env text
          else openAIEmbeddingRequest env text)"
  by (auto simp add: generateSingleEmbedding_def generateEmbedding_def Let_def
      split: sum.splits)

theorem embedding_fallback_witness:
  "generateSingleEmbedding demo_embedding ''  hello   world ''
     = ([EmbedVoyage ''hello world'', EmbedOpenAI ''hello world''], Inr [0.1, 0.2])
   \<and> generateEmbedding demo_ai ''hello''
     = ([EmbedVoyage ''hello'', EmbedOpenAI ''hello''], Inr [0.1, 0.2])"
proof -
  have c: "cleanTextForEmbedding ''  hello   world '' = ''hello world''"
    by (simp add: cleanTextForEmbedding_def trim_def is_space_def is_control_def Let_def)
  have v: "generateVoyageEmbedding demo_embedding ''hello world''
             = Inl (Error ''Voyage API error 429: rate limited'')"
          "generateOpenAIEmbedding demo_embedding ''hello world'' = Inr [0.1, 0.2]"
          "voyageEmbeddingRequest demo_ai ''hello'' = Inl (Error ''Voyage API error: 429'')"
          "openAIEmbeddingRequest demo_ai ''hello'' = Inr [0.1, 0.2]"
    by (simp_all add: demo_embedding_def demo_ai_def)
  show ?thesis
    using embedding_fallback [of demo_embedding "''  hello   world ''" demo_ai]
          embedding_fallback [of demo_embedding "''hello''" demo_ai] c v
    by (simp add: prod_eq_iff)
qed

end
